theory Spec2Isabelle
  imports Complex_Main "HOL-Library.Word"
begin

section \<open>Strings\<close>

text \<open>
  Path names, URLs, keys and the texts of the server side are modelled as
  \<^typ>\<open>string\<close>; what the user types into the chat panel is modelled further down, as
  a sequence of 16-bit code units. The functions below are the
  library calls the source makes on path names: \<^verbatim>\<open>startsWith\<close>,
  \<^verbatim>\<open>split("/")\<close>, \<^verbatim>\<open>filter(Boolean)\<close>, \<^verbatim>\<open>join("/")\<close>
  and the test of the regular expression \<^verbatim>\<open>/\.[^/]+$/\<close>.
\<close>

definition startsWith :: "string \<Rightarrow> string \<Rightarrow> bool" where
  "startsWith s p = (take (length p) s = p)"

text \<open>\<^verbatim>\<open>s.split(d)\<close> for a one-character separator: never the empty array.\<close>

fun split :: "char \<Rightarrow> string \<Rightarrow> string list" where
  "split d [] = [[]]"
| "split d (c # cs) =
     (if c = d then [] # split d cs
      else (case split d cs of
              [] \<Rightarrow> [[c]]
            | w # ws \<Rightarrow> (c # w) # ws))"

text \<open>\<^verbatim>\<open>.filter(Boolean)\<close> on an array of strings drops the empty ones.\<close>

definition filter_Boolean :: "string list \<Rightarrow> string list" where
  "filter_Boolean xs = filter (\<lambda>x. x \<noteq> []) xs"

fun join :: "string \<Rightarrow> string list \<Rightarrow> string" where
  "join sep [] = []"
| "join sep [x] = x"
| "join sep (x # y # ys) = x @ sep @ join sep (y # ys)"

text \<open>
  \<^verbatim>\<open>const PUBLIC_FILE = /\.[^/]+$/\<close>: the test succeeds when, at some position,
  a dot is followed by at least one character and by no slash up to the end of the string.
\<close>

fun PUBLIC_FILE_test :: "string \<Rightarrow> bool" where
  "PUBLIC_FILE_test [] = False"
| "PUBLIC_FILE_test (c # cs) =
     ((c = CHR ''.'' \<and> cs \<noteq> [] \<and> CHR ''/'' \<notin> set cs) \<or> PUBLIC_FILE_test cs)"

section \<open>Locale registry\<close>

text \<open>
  \<^verbatim>\<open>export const SUPPORTED_LOCALES = ["fr", "en"] as const;\<close>
  A value of the TypeScript type \<^verbatim>\<open>Locale\<close> is one of these strings at run time.
\<close>

type_synonym Locale = string

definition SUPPORTED_LOCALES :: "string list" where
  "SUPPORTED_LOCALES = [''fr'', ''en'']"

definition isLocale :: "string \<Rightarrow> bool" where
  "isLocale v = List.member SUPPORTED_LOCALES v"

section \<open>Request router\<close>

text \<open>
  The part of \<^verbatim>\<open>request.nextUrl\<close> the router reads and writes: the path name; the
  origin and the query string are carried along by \<^verbatim>\<open>clone()\<close>.
\<close>

record NextURL =
  origin :: string
  pathname :: string
  search :: string

record NextRequest =
  nextUrl :: NextURL

datatype NextResponse = NextResponse_next | NextResponse_redirect NextURL

text \<open>
  \<^verbatim>\<open>pathname.split("/").filter(Boolean)[0]\<close>: \<^verbatim>\<open>undefined\<close> (here \<open>None\<close>) when
  no segment is left.
\<close>

definition firstSegment :: "string \<Rightarrow> string option" where
  "firstSegment p =
     (case filter_Boolean (split CHR ''/'' p) of [] \<Rightarrow> None | x # _ \<Rightarrow> Some x)"

text \<open>\<^verbatim>\<open>SUPPORTED_LOCALES.includes(firstSegment as any)\<close>\<close>

definition hasLocale :: "string \<Rightarrow> bool" where
  "hasLocale p =
     (case firstSegment p of None \<Rightarrow> False | Some x \<Rightarrow> List.member SUPPORTED_LOCALES x)"

text \<open>
  The function \<^verbatim>\<open>proxy\<close>, applied to a request the framework hands to it (the
  \<^verbatim>\<open>matcher\<close> of \<^verbatim>\<open>config\<close> is the framework's business). It answers by
  letting the request through or by a redirect; it has no other answer.
\<close>

definition proxy :: "NextRequest \<Rightarrow> NextResponse" where
  "proxy request =
     (let p = pathname (nextUrl request) in
      if startsWith p ''/_next'' \<or> startsWith p ''/api'' \<or> PUBLIC_FILE_test p
      then NextResponse_next
      else if p = ''/''
      then NextResponse_redirect ((nextUrl request)\<lparr>pathname := ''/fr''\<rparr>)
      else if \<not> hasLocale p
      then NextResponse_redirect ((nextUrl request)\<lparr>pathname := ''/fr'' @ p\<rparr>)
      else NextResponse_next)"

section \<open>Language switcher\<close>

definition swapLocale :: "string \<Rightarrow> Locale \<Rightarrow> string" where
  "swapLocale p nextLocale =
     (let parts = filter_Boolean (split CHR ''/'' p) in
      if length parts = 0 then ''/'' @ nextLocale
      else ''/'' @ join ''/'' (parts[0 := nextLocale]))"

section \<open>JSON values and thrown values\<close>

text \<open>
  A parsed JSON value. A JSON number is a finite decimal, kept as a rational; the keys of
  an object keep their order. The type of the strings it holds is a parameter: the server
  routes and the bundles use \<^typ>\<open>string\<close>, the chat panel the strings of the browser.
\<close>

datatype 's JSON =
    JNull
  | JBool bool
  | JNumber rat
  | JString 's
  | JArray "'s JSON list"
  | JObject "(string \<times> 's JSON) list"

type_synonym json = "string JSON"

text \<open>
  What a \<^verbatim>\<open>throw\<close> or a rejected promise carries: an instance of \<^verbatim>\<open>Error\<close> with
  its message (\<^verbatim>\<open>fetch\<close> rejects with a \<^verbatim>\<open>TypeError\<close> on a network failure,
  \<^verbatim>\<open>json()\<close> with a \<^verbatim>\<open>SyntaxError\<close> on a malformed body), the error thrown by
  \<^verbatim>\<open>notFound()\<close>, or a value that is no \<^verbatim>\<open>Error\<close>.
\<close>

datatype thrown =
    TypeError string
  | SyntaxError string
  | RangeError string
  | Error string
  | NotFoundError
  | NotAnError

section \<open>Dictionary loader and project loader\<close>

text \<open>
  The host's module system: what \<^verbatim>\<open>import(specifier)\<close> settles to (the
  \<^verbatim>\<open>default\<close> export of the JSON module, or a rejection), and the log of the
  \<^verbatim>\<open>import()\<close> calls issued so far, oldest first. The JSON bundles themselves are
  parameters of the model.
\<close>

record Host =
  modules :: "string \<Rightarrow> thrown + json"
  imported :: "string list"

definition dynamic_import :: "string \<Rightarrow> Host \<Rightarrow> (thrown + json) \<times> Host" where
  "dynamic_import specifier h = (modules h specifier, h\<lparr>imported := imported h @ [specifier]\<rparr>)"

type_synonym Dictionary = json

text \<open>
  \<^verbatim>\<open>const dictionaries: Record<Locale, () => Promise<Dictionary>>\<close>: an object with the
  two keys \<^verbatim>\<open>fr\<close> and \<^verbatim>\<open>en\<close>, each holding a thunk that imports its bundle.
\<close>

definition dictionaries :: "Locale \<Rightarrow> (Host \<Rightarrow> (thrown + Dictionary) \<times> Host) option" where
  "dictionaries =
     [''fr'' \<mapsto> dynamic_import ''./dictionaries/fr.json'',
      ''en'' \<mapsto> dynamic_import ''./dictionaries/en.json'']"

text \<open>
  \<^verbatim>\<open>return dictionaries[locale]();\<close> Calling a missing key is a \<^verbatim>\<open>TypeError\<close>
  (names inherited from \<^verbatim>\<open>Object.prototype\<close> apart); the type \<^verbatim>\<open>Locale\<close>
  excludes every other key at build time.
\<close>

definition getDictionary :: "Locale \<Rightarrow> Host \<Rightarrow> (thrown + Dictionary) \<times> Host" where
  "getDictionary locale h =
     (case dictionaries locale of
        None \<Rightarrow> (Inl (TypeError ''dictionaries[locale] is not a function''), h)
      | Some load \<Rightarrow> load h)"

definition projectsByLocale :: "Locale \<Rightarrow> (Host \<Rightarrow> (thrown + json) \<times> Host) option" where
  "projectsByLocale =
     [''fr'' \<mapsto> dynamic_import ''./fr.json'',
      ''en'' \<mapsto> dynamic_import ''./en.json'']"

definition getProjects :: "Locale \<Rightarrow> Host \<Rightarrow> (thrown + json) \<times> Host" where
  "getProjects locale h =
     (case projectsByLocale locale of
        None \<Rightarrow> (Inl (TypeError ''projectsByLocale[locale] is not a function''), h)
      | Some load \<Rightarrow> load h)"

text \<open>A run of the process that asks for the dictionaries of \<open>ls\<close>, one call after the other.\<close>

fun getDictionary_calls :: "Locale list \<Rightarrow> Host \<Rightarrow> Host" where
  "getDictionary_calls [] h = h"
| "getDictionary_calls (l # ls) h = getDictionary_calls ls (snd (getDictionary l h))"

section \<open>Page renderer\<close>

text \<open>
  Reading a bundle. A JavaScript value is a JSON value or \<^verbatim>\<open>undefined\<close>, here
  \<open>None\<close>. \<open>own_property v k\<close> is the own property \<open>k\<close> of \<open>v\<close>: the last entry of that key
  when \<open>v\<close> is an object, and \<^verbatim>\<open>undefined\<close> otherwise.
\<close>

definition own_property :: "json \<Rightarrow> string \<Rightarrow> json option" where
  "own_property v k = (case v of JObject kvs \<Rightarrow> map_of (rev kvs) k | _ \<Rightarrow> None)"

definition quoted :: "string \<Rightarrow> string" where
  "quoted k = [CHR 0x27] @ k @ [CHR 0x27]"

text \<open>
  The member expression \<^verbatim>\<open>v.k\<close>: a \<^verbatim>\<open>TypeError\<close> on \<^verbatim>\<open>undefined\<close> and on
  \<^verbatim>\<open>null\<close>, the own property otherwise. (None of the names the pages read is a built-in
  property of objects, arrays, strings, numbers or booleans.)
\<close>

definition get_property :: "json option \<Rightarrow> string \<Rightarrow> thrown + json option" where
  "get_property v k =
     (case v of
        None \<Rightarrow>
          Inl (TypeError (''Cannot read properties of undefined (reading '' @ quoted k @ '')''))
      | Some JNull \<Rightarrow>
          Inl (TypeError (''Cannot read properties of null (reading '' @ quoted k @ '')''))
      | Some x \<Rightarrow> Inr (own_property x k))"

text \<open>A chain of member expressions, \<^verbatim>\<open>v.k1.k2\<close>, read from left to right.\<close>

fun path :: "json option \<Rightarrow> string list \<Rightarrow> thrown + json option" where
  "path v [] = Inr v"
| "path v (k # ks) = (case get_property v k of Inl e \<Rightarrow> Inl e | Inr x \<Rightarrow> path x ks)"

text \<open>
  The expressions a piece of JSX embeds, each a variable with a chain of names, evaluated
  one after the other; the first that throws ends the evaluation.
\<close>

fun reads :: "(json option \<times> string list) list \<Rightarrow> thrown + json option list" where
  "reads [] = Inr []"
| "reads ((v, ks) # es) =
     (case path v ks of
        Inl e \<Rightarrow> Inl e
      | Inr x \<Rightarrow> (case reads es of Inl e \<Rightarrow> Inl e | Inr xs \<Rightarrow> Inr (x # xs)))"

text \<open>
  \<^verbatim>\<open>v.map(f)\<close>, where \<open>expr\<close> is the text of the expression \<open>v\<close>: the callback runs
  on the items of an array in order; anything else has no method \<^verbatim>\<open>map\<close>.
\<close>

fun map_thrown :: "('a \<Rightarrow> thrown + 'b) \<Rightarrow> 'a list \<Rightarrow> thrown + 'b list" where
  "map_thrown f [] = Inr []"
| "map_thrown f (x # xs) =
     (case f x of
        Inl e \<Rightarrow> Inl e
      | Inr y \<Rightarrow> (case map_thrown f xs of Inl e \<Rightarrow> Inl e | Inr ys \<Rightarrow> Inr (y # ys)))"

definition Array_map :: "string \<Rightarrow> json option \<Rightarrow> (json \<Rightarrow> thrown + 'b) \<Rightarrow> thrown + 'b list" where
  "Array_map expr v f =
     (case v of
        None \<Rightarrow>
          Inl (TypeError (''Cannot read properties of undefined (reading '' @ quoted ''map'' @ '')''))
      | Some JNull \<Rightarrow>
          Inl (TypeError (''Cannot read properties of null (reading '' @ quoted ''map'' @ '')''))
      | Some (JArray xs) \<Rightarrow> map_thrown f xs
      | Some _ \<Rightarrow> Inl (TypeError (expr @ ''.map is not a function'')))"

text \<open>
  What a server component returns: the element tree, kept as the component that returned
  it and the values it embeds, in the order of the source. A child component
  (\<^verbatim>\<open>Header\<close>, \<^verbatim>\<open>ChatScene\<close>, \<^verbatim>\<open>ContactScene\<close>) is an element that holds its
  props; it is not called while the tree is built. What the framework does with the tree
  afterwards is not part of the model.
\<close>

datatype jsx =
    LocaleLayout_jsx Locale Dictionary
  | HomePage_jsx Locale "json option list"
  | ProjectsPage_jsx "json option list" "json option list list"
  | ChatPage_jsx Locale Dictionary
  | ContactPage_jsx Locale Dictionary
  | ApproachArchitecturePage_jsx "json option list" "json option list list"

text \<open>
  \<^verbatim>\<open>if (!isLocale(localeParam)) notFound();\<close> and \<^verbatim>\<open>notFound()\<close> throws.
\<close>

definition LocaleLayout :: "string \<Rightarrow> Host \<Rightarrow> (thrown + jsx) \<times> Host" where
  "LocaleLayout localeParam h =
     (if \<not> isLocale localeParam then (Inl NotFoundError, h)
      else
        (let locale = localeParam in
         case getDictionary locale h of
           (Inl e, h') \<Rightarrow> (Inl e, h')
         | (Inr dict, h') \<Rightarrow> (Inr (LocaleLayout_jsx locale dict), h')))"

text \<open>
  \<^verbatim>\<open>const locale = (isLocale(localeParam) ? localeParam : "fr") as Locale;\<close>
  The home page embeds \<^verbatim>\<open>dict.home.role\<close>, \<^verbatim>\<open>dict.home.goal\<close>, the four stack
  texts and \<^verbatim>\<open>dict.home.chatCta\<close>.
\<close>

definition HomePage :: "string \<Rightarrow> Host \<Rightarrow> (thrown + jsx) \<times> Host" where
  "HomePage localeParam h =
     (let locale = (if isLocale localeParam then localeParam else ''fr'') in
      case getDictionary locale h of
        (Inl e, h') \<Rightarrow> (Inl e, h')
      | (Inr dict, h') \<Rightarrow>
          (case reads
                  [(Some dict, [''home'', ''role'']),
                   (Some dict, [''home'', ''goal'']),
                   (Some dict, [''home'', ''stackBackend'']),
                   (Some dict, [''home'', ''stackAi'']),
                   (Some dict, [''home'', ''stackInfra'']),
                   (Some dict, [''home'', ''stackData'']),
                   (Some dict, [''home'', ''chatCta''])] of
             Inl e \<Rightarrow> (Inl e, h')
           | Inr texts \<Rightarrow> (Inr (HomePage_jsx locale texts), h')))"

text \<open>
  The projects page embeds \<^verbatim>\<open>dict.projects.title\<close> and \<^verbatim>\<open>dict.projects.intro\<close>,
  then one card for each item of \<^verbatim>\<open>projects.map(...)\<close>: the project's name (as key and
  as heading) and, for each of the five fields, its label from the dictionary and the
  project's text.
\<close>

definition ProjectsPage :: "string \<Rightarrow> Host \<Rightarrow> (thrown + jsx) \<times> Host" where
  "ProjectsPage localeParam h =
     (let locale = (if isLocale localeParam then localeParam else ''fr'') in
      case getDictionary locale h of
        (Inl e, h') \<Rightarrow> (Inl e, h')
      | (Inr dict, h') \<Rightarrow>
          (case getProjects locale h' of
             (Inl e, h'') \<Rightarrow> (Inl e, h'')
           | (Inr projects, h'') \<Rightarrow>
               (case reads
                       [(Some dict, [''projects'', ''title'']),
                        (Some dict, [''projects'', ''intro''])] of
                  Inl e \<Rightarrow> (Inl e, h'')
                | Inr heading \<Rightarrow>
                    (case Array_map ''projects'' (Some projects)
                            (\<lambda>project. reads
                               [(Some project, [''name'']),
                                (Some project, [''name'']),
                                (Some dict, [''projects'', ''labels'', ''context'']),
                                (Some project, [''context'']),
                                (Some dict, [''projects'', ''labels'', ''architecture'']),
                                (Some project, [''architecture'']),
                                (Some dict, [''projects'', ''labels'', ''choices'']),
                                (Some project, [''choices'']),
                                (Some dict, [''projects'', ''labels'', ''constraints'']),
                                (Some project, [''constraints'']),
                                (Some dict, [''projects'', ''labels'', ''results'']),
                                (Some project, [''results''])]) of
                       Inl e \<Rightarrow> (Inl e, h'')
                     | Inr cards \<Rightarrow> (Inr (ProjectsPage_jsx heading cards), h'')))))"

definition ChatPage :: "string \<Rightarrow> Host \<Rightarrow> (thrown + jsx) \<times> Host" where
  "ChatPage localeParam h =
     (let locale = (if isLocale localeParam then localeParam else ''fr'') in
      case getDictionary locale h of
        (Inl e, h') \<Rightarrow> (Inl e, h')
      | (Inr dict, h') \<Rightarrow> (Inr (ChatPage_jsx locale dict), h'))"

definition ContactPage :: "string \<Rightarrow> Host \<Rightarrow> (thrown + jsx) \<times> Host" where
  "ContactPage localeParam h =
     (let locale = (if isLocale localeParam then localeParam else ''fr'') in
      case getDictionary locale h of
        (Inl e, h') \<Rightarrow> (Inl e, h')
      | (Inr dict, h') \<Rightarrow> (Inr (ContactPage_jsx locale dict), h'))"

text \<open>
  The approach page embeds \<^verbatim>\<open>dict.approach.title\<close> and \<^verbatim>\<open>dict.approach.intro\<close>,
  then one item for each step of \<^verbatim>\<open>dict.approach.steps.map(...)\<close>: the step's title (as
  key and as heading) and its detail.
\<close>

definition ApproachArchitecturePage :: "string \<Rightarrow> Host \<Rightarrow> (thrown + jsx) \<times> Host" where
  "ApproachArchitecturePage localeParam h =
     (let locale = (if isLocale localeParam then localeParam else ''fr'') in
      case getDictionary locale h of
        (Inl e, h') \<Rightarrow> (Inl e, h')
      | (Inr dict, h') \<Rightarrow>
          (case reads
                  [(Some dict, [''approach'', ''title'']),
                   (Some dict, [''approach'', ''intro''])] of
             Inl e \<Rightarrow> (Inl e, h')
           | Inr heading \<Rightarrow>
               (case path (Some dict) [''approach'', ''steps''] of
                  Inl e \<Rightarrow> (Inl e, h')
                | Inr steps \<Rightarrow>
                    (case Array_map ''dict.approach.steps'' steps
                            (\<lambda>step. reads
                               [(Some step, [''title'']),
                                (Some step, [''title'']),
                                (Some step, [''detail''])]) of
                       Inl e \<Rightarrow> (Inl e, h')
                     | Inr items \<Rightarrow> (Inr (ApproachArchitecturePage_jsx heading items), h')))))"

section \<open>Backend proxy endpoints\<close>

text \<open>
  The second argument of \<^verbatim>\<open>fetch\<close>. A body is always the text
  \<^verbatim>\<open>JSON.stringify(v)\<close> of a value \<open>v\<close>, and is kept as that value.
\<close>

datatype 's BodyInit = JSON_stringify "'s JSON"

record 's RequestInit =
  method_ :: "string option"
  headers :: "(string \<times> string) list"
  body :: "'s BodyInit option"
  cache :: "string option"

text \<open>
  A response as \<^verbatim>\<open>fetch\<close> resolves it: its status, and what
  \<^verbatim>\<open>await response.json()\<close> settles to.
\<close>

record Response =
  status :: nat
  response_json :: "thrown + json"

text \<open>The incoming request of a route handler: what \<^verbatim>\<open>await request.json()\<close> settles to.\<close>

record Request =
  request_json :: "thrown + json"

text \<open>
  The server's surroundings: the environment variable \<^verbatim>\<open>NEXT_PUBLIC_API_BASE_URL\<close>
  (\<open>None\<close> when unset) and what \<^verbatim>\<open>await fetch(url, init)\<close> settles to.
\<close>

record Server =
  NEXT_PUBLIC_API_BASE_URL :: "string option"
  fetch :: "string \<Rightarrow> string RequestInit \<Rightarrow> thrown + Response"

text \<open>
  \<^verbatim>\<open>NextResponse.json(data, { status })\<close> builds the response with the platform's
  \<^verbatim>\<open>Response\<close> constructor, which throws a \<^verbatim>\<open>RangeError\<close> for a status outside
  200..599 and a \<^verbatim>\<open>TypeError\<close> for a body given together with a null-body status.
\<close>

datatype JsonResponse = JsonResponse json nat

definition NextResponse_json :: "json \<Rightarrow> nat \<Rightarrow> thrown + JsonResponse" where
  "NextResponse_json data st =
     (if st < 200 \<or> 599 < st then Inl (RangeError ''status must be in the range of 200 to 599'')
      else if st = 204 \<or> st = 205 \<or> st = 304 then Inl (TypeError ''Invalid response status code'')
      else Inr (JsonResponse data st))"

text \<open>
  \<^verbatim>\<open>return process.env.NEXT_PUBLIC_API_BASE_URL || "http://127.0.0.1:8000";\<close>
  The empty string is falsy, as \<^verbatim>\<open>undefined\<close> is.
\<close>

definition getApiBaseUrl :: "Server \<Rightarrow> string" where
  "getApiBaseUrl srv =
     (case NEXT_PUBLIC_API_BASE_URL srv of
        None \<Rightarrow> ''http://127.0.0.1:8000''
      | Some v \<Rightarrow> if v = [] then ''http://127.0.0.1:8000'' else v)"

text \<open>The health route. \<open>GET_try\<close> is the body of its \<^verbatim>\<open>try\<close> block.\<close>

definition GET_try :: "Server \<Rightarrow> string \<Rightarrow> thrown + JsonResponse" where
  "GET_try srv baseUrl =
     (case fetch srv (baseUrl @ ''/health'')
             \<lparr>method_ = None, headers = [], body = None, cache = Some ''no-store''\<rparr> of
        Inl e \<Rightarrow> Inl e
      | Inr response \<Rightarrow>
          (case response_json response of
             Inl e \<Rightarrow> Inl e
           | Inr data \<Rightarrow> NextResponse_json data (status response)))"

definition GET :: "Server \<Rightarrow> thrown + JsonResponse" where
  "GET srv =
     (let baseUrl = getApiBaseUrl srv in
      case GET_try srv baseUrl of
        Inr r \<Rightarrow> Inr r
      | Inl e \<Rightarrow>
          NextResponse_json
            (JObject [(''status'', JString ''error''), (''reason'', JString ''backend_unreachable'')])
            502)"

text \<open>The chat route. \<open>POST_try\<close> is the body of its \<^verbatim>\<open>try\<close> block.\<close>

definition POST_try :: "Server \<Rightarrow> string \<Rightarrow> Request \<Rightarrow> thrown + JsonResponse" where
  "POST_try srv baseUrl request =
     (case request_json request of
        Inl e \<Rightarrow> Inl e
      | Inr payload \<Rightarrow>
          (case fetch srv (baseUrl @ ''/chat'')
                  \<lparr>method_ = Some ''POST'',
                   headers = [(''content-type'', ''application/json'')],
                   body = Some (JSON_stringify payload),
                   cache = None\<rparr> of
             Inl e \<Rightarrow> Inl e
           | Inr response \<Rightarrow>
               (case response_json response of
                  Inl e \<Rightarrow> Inl e
                | Inr data \<Rightarrow> NextResponse_json data (status response))))"

definition POST :: "Server \<Rightarrow> Request \<Rightarrow> thrown + JsonResponse" where
  "POST srv request =
     (let baseUrl = getApiBaseUrl srv in
      case POST_try srv baseUrl request of
        Inr r \<Rightarrow> Inr r
      | Inl e \<Rightarrow> NextResponse_json (JObject [(''message'', JString ''Backend unreachable'')]) 502)"

section \<open>Chat panel\<close>

text \<open>
  A string of the browser is a sequence of 16-bit code units. \<open>js\<close> gives the code units
  of a text written with the characters of \<^typ>\<open>string\<close>.
\<close>

type_synonym code_unit = "16 word"

type_synonym JSString = "code_unit list"

definition js :: "string \<Rightarrow> JSString" where
  "js s = map (\<lambda>c. of_nat (of_char c)) s"

text \<open>
  The code units \<^verbatim>\<open>trim()\<close> strips and \<^verbatim>\<open>\s\<close> matches, the white space and the
  line terminators of the language: tab, line feed, vertical tab, form feed, carriage
  return, space, no-break space, U+1680, U+2000 to U+200A, the line and paragraph
  separators U+2028 and U+2029, U+202F, U+205F, U+3000 and U+FEFF.
\<close>

definition isWhiteSpace :: "code_unit \<Rightarrow> bool" where
  "isWhiteSpace c =
     List.member
       [0x0009, 0x000A, 0x000B, 0x000C, 0x000D, 0x0020, 0x00A0, 0x1680,
        0x2000, 0x2001, 0x2002, 0x2003, 0x2004, 0x2005, 0x2006, 0x2007, 0x2008, 0x2009, 0x200A,
        0x2028, 0x2029, 0x202F, 0x205F, 0x3000, 0xFEFF] c"

definition trim :: "JSString \<Rightarrow> JSString" where
  "trim s = rev (dropWhile isWhiteSpace (rev (dropWhile isWhiteSpace s)))"

text \<open>
  \<^verbatim>\<open>s.split(/\s+/)\<close>: the pieces between the maximal runs of white space; a run at
  either end leaves an empty piece there.
\<close>

function split_whitespace :: "JSString \<Rightarrow> JSString list" where
  "split_whitespace [] = [[]]"
| "split_whitespace (c # cs) =
     (if isWhiteSpace c then [] # split_whitespace (dropWhile isWhiteSpace cs)
      else (case split_whitespace cs of
              [] \<Rightarrow> [[c]]
            | w # ws \<Rightarrow> (c # w) # ws))"
  by pat_completeness auto
termination
  by (relation "measure length") (auto simp: length_dropWhile_le less_Suc_eq_le)

text \<open>The decimal digits of a number, as a template literal prints them.\<close>

fun String_of_nat :: "nat \<Rightarrow> string" where
  "String_of_nat n =
     (if n < 10 then [char_of (48 + n)]
      else String_of_nat (n div 10) @ [char_of (48 + n mod 10)])"

datatype Role = user | system | ai

record Message =
  id' :: JSString
  role :: Role
  content :: JSString
  ts :: JSString

record Metrics =
  latency :: int
  tokenGen :: int
  memory :: rat
  tokensUsed :: int

text \<open>
  The component's state: its \<^verbatim>\<open>useState\<close> cells and the ref
  \<^verbatim>\<open>pendingTextRef\<close>.
\<close>

record ChatScene =
  messages :: "Message list"
  input :: JSString
  isProcessing :: bool
  typingText :: JSString
  typingId :: "JSString option"
  isDisconnecting :: bool
  booted :: bool
  sessionId :: JSString
  metrics :: Metrics
  uptime :: nat
  pendingTextRef :: JSString

text \<open>What the clock gives when asked: \<^verbatim>\<open>Date.now()\<close> and the helper \<^verbatim>\<open>ts()\<close>.\<close>

record Clock =
  Date_now :: nat
  ts_now :: JSString

text \<open>A network call issued by the component: \<^verbatim>\<open>fetch(url, init)\<close>.\<close>

datatype NetworkCall = Fetch string "JSString RequestInit"

text \<open>
  \<^verbatim>\<open>handleSend\<close> up to its first \<^verbatim>\<open>await\<close>: the guard, the state updates and
  the call of \<^verbatim>\<open>fetch\<close>. It returns the state once the queued updates are applied,
  and the network calls it issued. When the guard returns, nothing follows; otherwise the
  handler goes on once \<^verbatim>\<open>fetch\<close> settles, which is not part of this model.
\<close>

definition handleSend :: "Locale \<Rightarrow> Clock \<Rightarrow> ChatScene \<Rightarrow> ChatScene \<times> NetworkCall list" where
  "handleSend locale clock st =
     (let trimmed = trim (input st) in
      if trimmed = [] \<or> isProcessing st \<or> \<not> booted st then (st, [])
      else
        (let userMsg =
               \<lparr>id' = js (''u-'' @ String_of_nat (Date_now clock)),
                role = user,
                content = trimmed,
                ts = ts_now clock\<rparr>
         in
           (st\<lparr>messages := messages st @ [userMsg],
               input := [],
               isProcessing := True,
               metrics := (metrics st)
                 \<lparr>tokensUsed :=
                    tokensUsed (metrics st) + int (length (split_whitespace trimmed)) * 3\<rparr>\<rparr>,
            [Fetch ''/api/chat''
               \<lparr>method_ = Some ''POST'',
                headers = [(''Content-Type'', ''application/json'')],
                body = Some (JSON_stringify
                  (JObject [(''message'', JString trimmed),
                            (''session_id'', JString (sessionId st)),
                            (''locale'', JString (js locale))])),
                cache = None\<rparr>])))"

section \<open>Concrete surroundings for the examples\<close>

text \<open>A backend that cannot be reached, and one that answers every call with \<open>r\<close>.\<close>

definition unreachable :: "string \<Rightarrow> string RequestInit \<Rightarrow> thrown + Response" where
  "unreachable url init = Inl (TypeError ''fetch failed'')"

definition answering :: "Response \<Rightarrow> string \<Rightarrow> string RequestInit \<Rightarrow> thrown + Response" where
  "answering r url init = Inr r"

text \<open>A module system in which every import resolves to \<open>j\<close>.\<close>

definition bundled :: "json \<Rightarrow> string \<Rightarrow> thrown + json" where
  "bundled j specifier = Inr j"

text \<open>
  A small site: a dictionary with the sections the pages read, for both locales, and a
  project list of one project.
\<close>

definition sample_dictionary :: json where
  "sample_dictionary =
     JObject
       [(''home'', JObject
           [(''role'', JString ''Architecte IA''), (''goal'', JString ''Concevoir''),
            (''stackBackend'', JString ''Python''), (''stackAi'', JString ''RAG''),
            (''stackInfra'', JString ''Docker''), (''stackData'', JString ''Postgres''),
            (''chatCta'', JString ''Ouvrir'')]),
        (''projects'', JObject
           [(''title'', JString ''Projets''), (''intro'', JString ''Etudes de cas''),
            (''labels'', JObject
               [(''context'', JString ''Contexte''), (''architecture'', JString ''Architecture''),
                (''choices'', JString ''Choix''), (''constraints'', JString ''Contraintes''),
                (''results'', JString ''Resultats'')])]),
        (''approach'', JObject
           [(''title'', JString ''Approche''), (''intro'', JString ''En bref''),
            (''steps'', JArray
               [JObject [(''title'', JString ''Cadrer''), (''detail'', JString ''Comprendre'')]])])]"

definition sample_projects :: json where
  "sample_projects =
     JArray
       [JObject
          [(''name'', JString ''Portfolio''), (''context'', JString ''Site''),
           (''architecture'', JString ''Next''), (''choices'', JString ''SSR''),
           (''constraints'', JString ''Temps''), (''results'', JString ''En ligne'')]]"

definition sample_modules :: "string \<Rightarrow> thrown + json" where
  "sample_modules specifier =
     (if specifier = ''./fr.json'' \<or> specifier = ''./en.json'' then Inr sample_projects
      else Inr sample_dictionary)"

text \<open>The chat panel once booted, nothing in flight, with \<open>text\<close> in the input field.\<close>

definition idle_scene :: "JSString \<Rightarrow> ChatScene" where
  "idle_scene text =
     \<lparr>messages = [], input = text, isProcessing = False, typingText = [], typingId = None,
      isDisconnecting = False, booted = True, sessionId = js ''0000'',
      metrics = \<lparr>latency = 42, tokenGen = 38, memory = 42 / 10, tokensUsed = 0\<rparr>,
      uptime = 0, pendingTextRef = []\<rparr>"

section \<open>Path helpers\<close>

lemma split_append_sep:
  "d \<notin> set s \<Longrightarrow> split d (s @ d # r) = s # split d r"
  by (induction s) auto

lemma firstSegment_slash_seg:
  assumes "s \<noteq> []" and "CHR ''/'' \<notin> set s"
  shows "firstSegment (''/'' @ s @ ''/'' @ r) = Some s"
  using assms by (simp add: firstSegment_def filter_Boolean_def split_append_sep)

section \<open>The language switcher\<close>

text \<open>
  C7. The language switcher's path rewrite maps the path \<^verbatim>\<open>/fr/projets\<close> with target
  locale \<^verbatim>\<open>en\<close> to \<^verbatim>\<open>/en/projets\<close>, and the path \<^verbatim>\<open>/fr\<close> with target locale
  \<^verbatim>\<open>en\<close> to \<^verbatim>\<open>/en\<close>.
\<close>

theorem swapLocale_examples:
  "swapLocale ''/fr/projets'' ''en'' = ''/en/projets'' \<and> swapLocale ''/fr'' ''en'' = ''/en''"
  by (simp add: swapLocale_def filter_Boolean_def)

section \<open>The request router\<close>

text \<open>
  C8. A request whose path is exactly the root is redirected to \<^verbatim>\<open>/fr\<close>, whatever
  its query string (and origin): the redirect target is the request's URL with only the
  path name replaced.
\<close>

theorem proxy_root_redirect:
  "proxy \<lparr>nextUrl = \<lparr>origin = org, pathname = ''/'', search = q\<rparr>\<rparr> =
     NextResponse_redirect \<lparr>origin = org, pathname = ''/fr'', search = q\<rparr>"
  by (simp add: proxy_def startsWith_def)

text \<open>
  C1, as stated, fails: \<^verbatim>\<open>api\<close> is no supported locale, yet a request for
  \<^verbatim>\<open>/api/chat\<close> is let through, not redirected to \<^verbatim>\<open>/fr/api/chat\<close>. The first
  test of \<^verbatim>\<open>proxy\<close> lets through every path that starts with \<^verbatim>\<open>/_next\<close> or
  \<^verbatim>\<open>/api\<close> or that ends in a file extension.
\<close>

theorem proxy_api_passes_through:
  "\<not> isLocale ''api'' \<and>
   proxy \<lparr>nextUrl = \<lparr>origin = ''https://example.org'', pathname = ''/api/chat'', search = []\<rparr>\<rparr>
     = NextResponse_next \<and>
   proxy \<lparr>nextUrl = \<lparr>origin = ''https://example.org'', pathname = ''/api/chat'', search = []\<rparr>\<rparr>
     \<noteq> NextResponse_redirect
          \<lparr>origin = ''https://example.org'', pathname = ''/fr/api/chat'', search = []\<rparr>"
  by (simp add: proxy_def startsWith_def isLocale_def SUPPORTED_LOCALES_def)

text \<open>
  C1, amended. For every path segment \<open>s\<close> (not empty, without a slash) that is not a
  supported locale, a request for the path \<^verbatim>\<open>/s/...\<close> is redirected to the same
  path prefixed with the default locale, \<^verbatim>\<open>/fr/s/...\<close>, with the origin and the query
  string unchanged, provided the path is not one the router lets through first: it does not
  start with \<^verbatim>\<open>/_next\<close> or \<^verbatim>\<open>/api\<close> and does not end in a file extension. The
  router only lets through or redirects, so the request is not rejected.
\<close>

theorem proxy_unrecognized_segment:
  assumes "\<not> isLocale s" and "s \<noteq> []" and "CHR ''/'' \<notin> set s"
    and "p = ''/'' @ s @ ''/'' @ rest"
    and "\<not> startsWith p ''/_next''" and "\<not> startsWith p ''/api''" and "\<not> PUBLIC_FILE_test p"
  shows "proxy \<lparr>nextUrl = \<lparr>origin = org, pathname = p, search = q\<rparr>\<rparr> =
           NextResponse_redirect \<lparr>origin = org, pathname = ''/fr/'' @ s @ ''/'' @ rest, search = q\<rparr>"
proof -
  have seg: "firstSegment p = Some s"
    using assms(2,3,4) firstSegment_slash_seg by simp
  have "\<not> hasLocale p"
    using assms(1) seg by (simp add: hasLocale_def isLocale_def)
  moreover have "p \<noteq> ''/''"
    using assms(2,4) by (cases s) auto
  ultimately show ?thesis
    using assms(4,5,6,7) by (simp add: proxy_def)
qed

theorem proxy_unrecognized_segment_witness:
  "\<not> isLocale ''xx'' \<and>
   \<not> startsWith ''/xx/page'' ''/_next'' \<and> \<not> startsWith ''/xx/page'' ''/api'' \<and>
   \<not> PUBLIC_FILE_test ''/xx/page'' \<and>
   proxy \<lparr>nextUrl = \<lparr>origin = ''https://example.org'', pathname = ''/xx/page'', search = ''?a=1''\<rparr>\<rparr> =
     NextResponse_redirect
       \<lparr>origin = ''https://example.org'', pathname = ''/fr/xx/page'', search = ''?a=1''\<rparr>"
  using proxy_unrecognized_segment
    [of "''xx''" "''/xx/page''" "''page''" "''https://example.org''" "''?a=1''"]
  by (simp add: isLocale_def SUPPORTED_LOCALES_def startsWith_def)

section \<open>The backend proxy endpoints\<close>

text \<open>
  C2. If the health route's \<^verbatim>\<open>fetch\<close> of \<^verbatim>\<open>{BASE}/health\<close> fails with a network
  error, the route answers exactly \<^verbatim>\<open>{status: "error", reason: "backend_unreachable"}\<close>
  with status 502.
\<close>

theorem health_network_failure:
  assumes "fetch srv (getApiBaseUrl srv @ ''/health'')
             \<lparr>method_ = None, headers = [], body = None, cache = Some ''no-store''\<rparr> = Inl e"
  shows "GET srv =
           Inr (JsonResponse
                  (JObject [(''status'', JString ''error''),
                            (''reason'', JString ''backend_unreachable'')])
                  502)"
  using assms by (simp add: GET_def GET_try_def NextResponse_json_def)

theorem health_network_failure_witness:
  "GET \<lparr>NEXT_PUBLIC_API_BASE_URL = None, fetch = unreachable\<rparr> =
     Inr (JsonResponse
            (JObject [(''status'', JString ''error''),
                      (''reason'', JString ''backend_unreachable'')])
            502)"
  using health_network_failure
    [of "\<lparr>NEXT_PUBLIC_API_BASE_URL = None, fetch = unreachable\<rparr>" "TypeError ''fetch failed''"]
  by (simp add: unreachable_def)

text \<open>
  C3. If the chat route's \<^verbatim>\<open>fetch\<close> of \<^verbatim>\<open>{BASE}/chat\<close>, the forwarded POST of the
  request's payload, fails with a network error, the route answers exactly
  \<^verbatim>\<open>{message: "Backend unreachable"}\<close> with status 502.
\<close>

theorem chat_network_failure:
  assumes "request_json request = Inr payload"
    and "fetch srv (getApiBaseUrl srv @ ''/chat'')
           \<lparr>method_ = Some ''POST'',
            headers = [(''content-type'', ''application/json'')],
            body = Some (JSON_stringify payload),
            cache = None\<rparr> = Inl e"
  shows "POST srv request =
           Inr (JsonResponse (JObject [(''message'', JString ''Backend unreachable'')]) 502)"
  using assms by (simp add: POST_def POST_try_def NextResponse_json_def)

theorem chat_network_failure_witness:
  "POST \<lparr>NEXT_PUBLIC_API_BASE_URL = Some ''http://backend:8000'', fetch = unreachable\<rparr>
        \<lparr>request_json = Inr (JObject [(''message'', JString ''ping'')])\<rparr> =
     Inr (JsonResponse (JObject [(''message'', JString ''Backend unreachable'')]) 502)"
  using chat_network_failure
    [of "\<lparr>request_json = Inr (JObject [(''message'', JString ''ping'')])\<rparr>"
        "JObject [(''message'', JString ''ping'')]"
        "\<lparr>NEXT_PUBLIC_API_BASE_URL = Some ''http://backend:8000'', fetch = unreachable\<rparr>"
        "TypeError ''fetch failed''"]
  by (simp add: unreachable_def)

text \<open>
  C10, as stated, fails in its ``only if'': when the backend itself answers the forwarded
  POST with status 502 and the body \<^verbatim>\<open>{message: "Backend unreachable"}\<close>, no step
  throws (the \<^verbatim>\<open>try\<close> block returns), and the route's answer, the relayed one, is that
  same envelope.
\<close>

theorem chat_envelope_relayed_without_throw:
  "POST_try
     \<lparr>NEXT_PUBLIC_API_BASE_URL = None,
      fetch = answering
        \<lparr>status = 502,
         response_json = Inr (JObject [(''message'', JString ''Backend unreachable'')])\<rparr>\<rparr>
     ''http://127.0.0.1:8000''
     \<lparr>request_json = Inr (JObject [(''message'', JString ''ping'')])\<rparr> =
     Inr (JsonResponse (JObject [(''message'', JString ''Backend unreachable'')]) 502) \<and>
   POST
     \<lparr>NEXT_PUBLIC_API_BASE_URL = None,
      fetch = answering
        \<lparr>status = 502,
         response_json = Inr (JObject [(''message'', JString ''Backend unreachable'')])\<rparr>\<rparr>
     \<lparr>request_json = Inr (JObject [(''message'', JString ''ping'')])\<rparr> =
     Inr (JsonResponse (JObject [(''message'', JString ''Backend unreachable'')]) 502)"
  by (simp add: POST_def POST_try_def NextResponse_json_def getApiBaseUrl_def answering_def)

text \<open>
  C10, amended. The chat route answers its fixed envelope
  \<^verbatim>\<open>{message: "Backend unreachable"}\<close> with status 502 exactly in these cases: a step of
  the forward throws, that is, the incoming request's body is not valid JSON, or
  \<^verbatim>\<open>fetch\<close> fails, or the backend's response body is not valid JSON, or the response
  cannot be built with the backend's status; or else the backend itself answered that body
  with status 502. So a malformed client request gets the same envelope as a network
  failure. And when no step throws, the route relays the backend's JSON body with the
  backend's status as they are.
\<close>

theorem chat_envelope_iff:
  "(POST srv request =
      Inr (JsonResponse (JObject [(''message'', JString ''Backend unreachable'')]) 502)
    \<longleftrightarrow>
      (\<exists>e. request_json request = Inl e) \<or>
      (\<exists>payload e.
         request_json request = Inr payload \<and>
         fetch srv (getApiBaseUrl srv @ ''/chat'')
           \<lparr>method_ = Some ''POST'',
            headers = [(''content-type'', ''application/json'')],
            body = Some (JSON_stringify payload),
            cache = None\<rparr> = Inl e) \<or>
      (\<exists>payload response e.
         request_json request = Inr payload \<and>
         fetch srv (getApiBaseUrl srv @ ''/chat'')
           \<lparr>method_ = Some ''POST'',
            headers = [(''content-type'', ''application/json'')],
            body = Some (JSON_stringify payload),
            cache = None\<rparr> = Inr response \<and>
         response_json response = Inl e) \<or>
      (\<exists>payload response data e.
         request_json request = Inr payload \<and>
         fetch srv (getApiBaseUrl srv @ ''/chat'')
           \<lparr>method_ = Some ''POST'',
            headers = [(''content-type'', ''application/json'')],
            body = Some (JSON_stringify payload),
            cache = None\<rparr> = Inr response \<and>
         response_json response = Inr data \<and>
         NextResponse_json data (status response) = Inl e) \<or>
      (\<exists>payload response.
         request_json request = Inr payload \<and>
         fetch srv (getApiBaseUrl srv @ ''/chat'')
           \<lparr>method_ = Some ''POST'',
            headers = [(''content-type'', ''application/json'')],
            body = Some (JSON_stringify payload),
            cache = None\<rparr> = Inr response \<and>
         response_json response = Inr (JObject [(''message'', JString ''Backend unreachable'')]) \<and>
         status response = 502)) \<and>
   (\<forall>payload response data.
      request_json request = Inr payload \<and>
      fetch srv (getApiBaseUrl srv @ ''/chat'')
        \<lparr>method_ = Some ''POST'',
         headers = [(''content-type'', ''application/json'')],
         body = Some (JSON_stringify payload),
         cache = None\<rparr> = Inr response \<and>
      response_json response = Inr data \<and>
      200 \<le> status response \<and> status response \<le> 599 \<and>
      status response \<noteq> 204 \<and> status response \<noteq> 205 \<and> status response \<noteq> 304
      \<longrightarrow> POST srv request = Inr (JsonResponse data (status response)))"
  by (auto simp: POST_def POST_try_def NextResponse_json_def split: sum.splits if_splits)

theorem chat_envelope_iff_witness:
  "POST
     \<lparr>NEXT_PUBLIC_API_BASE_URL = None,
      fetch = answering
        \<lparr>status = 200, response_json = Inr (JObject [(''response'', JString ''pong'')])\<rparr>\<rparr>
     \<lparr>request_json = Inr (JObject [(''message'', JString ''ping'')])\<rparr> =
     Inr (JsonResponse (JObject [(''response'', JString ''pong'')]) 200)"
  using chat_envelope_iff
    [THEN conjunct2, rule_format,
     of "\<lparr>request_json = Inr (JObject [(''message'', JString ''ping'')])\<rparr>"
        "JObject [(''message'', JString ''ping'')]"
        "\<lparr>NEXT_PUBLIC_API_BASE_URL = None,
         fetch = answering
           \<lparr>status = 200, response_json = Inr (JObject [(''response'', JString ''pong'')])\<rparr>\<rparr>"
        "\<lparr>status = 200, response_json = Inr (JObject [(''response'', JString ''pong'')])\<rparr>"
        "JObject [(''response'', JString ''pong'')]"]
  by (simp add: answering_def)

section \<open>The dictionary loader\<close>

lemma getDictionary_supported:
  assumes "isLocale l"
  shows "getDictionary l h =
           (modules h (''./dictionaries/'' @ l @ ''.json''),
            h\<lparr>imported := imported h @ [''./dictionaries/'' @ l @ ''.json'']\<rparr>)"
  using assms
  by (auto simp: isLocale_def SUPPORTED_LOCALES_def getDictionary_def dictionaries_def
      dynamic_import_def)

lemma getProjects_fr:
  "getProjects ''fr'' h = (modules h ''./fr.json'', h\<lparr>imported := imported h @ [''./fr.json'']\<rparr>)"
  by (simp add: getProjects_def projectsByLocale_def dynamic_import_def)

lemma isLocale_fr: "isLocale ''fr''"
  by (simp add: isLocale_def SUPPORTED_LOCALES_def)

text \<open>
  C5, as stated, fails: the loader has no cache. Two calls of \<^verbatim>\<open>getDictionary("fr")\<close>
  in one process issue the import of the French bundle twice.
\<close>

theorem getDictionary_imports_twice:
  "imported (getDictionary_calls [''fr'', ''fr''] \<lparr>modules = bundled (JObject []), imported = []\<rparr>) =
     [''./dictionaries/fr.json'', ''./dictionaries/fr.json'']"
  by (simp add: getDictionary_def dictionaries_def dynamic_import_def)

text \<open>
  C5, amended. The Dictionary Loader keeps no cache of its own: it selects the loader of
  the locale by a direct table lookup, and every call for a supported locale issues one
  dynamic import of that locale's bundle, so that a run of calls issues as many imports, in
  the same order, and changes nothing else. Loading a bundle at most once is left to the
  host's module system.
\<close>

theorem getDictionary_imports_every_call:
  assumes "\<forall>l \<in> set ls. isLocale l"
  shows "imported (getDictionary_calls ls h) =
           imported h @ map (\<lambda>l. ''./dictionaries/'' @ l @ ''.json'') ls \<and>
         modules (getDictionary_calls ls h) = modules h"
  using assms
proof (induction ls arbitrary: h)
  case Nil
  then show ?case by simp
next
  case (Cons l ls)
  then show ?case by (simp add: getDictionary_supported)
qed

theorem getDictionary_imports_every_call_witness:
  "imported (getDictionary_calls [''fr'', ''en'', ''fr'']
      \<lparr>modules = bundled (JObject []), imported = []\<rparr>) =
     [''./dictionaries/fr.json'', ''./dictionaries/en.json'', ''./dictionaries/fr.json'']"
  using getDictionary_imports_every_call
    [of "[''fr'', ''en'', ''fr'']" "\<lparr>modules = bundled (JObject []), imported = []\<rparr>"]
  by (simp add: isLocale_def SUPPORTED_LOCALES_def)

section \<open>The page renderer\<close>

lemma getDictionary_fr:
  "getDictionary ''fr'' h =
     (modules h ''./dictionaries/fr.json'',
      h\<lparr>imported := imported h @ [''./dictionaries/fr.json'']\<rparr>)"
  using getDictionary_supported [OF isLocale_fr, of h] by simp

lemma get_property_value:
  "v \<noteq> JNull \<Longrightarrow> get_property (Some v) k = Inr (own_property v k)"
  by (cases v) (simp_all add: get_property_def)

lemma path_section:
  assumes "own_property dict s = Some sec" and "sec \<noteq> JNull"
  shows "path (Some dict) [s, k] = Inr (own_property sec k)"
proof -
  have "dict \<noteq> JNull"
    using assms(1) by (auto simp: own_property_def)
  then show ?thesis
    using assms by (simp add: get_property_value)
qed

lemma path_property:
  "v \<noteq> JNull \<Longrightarrow> path (Some v) [k] = Inr (own_property v k)"
  by (simp add: get_property_value)

lemma map_thrown_values:
  "(\<And>x. x \<in> set xs \<Longrightarrow> f x = Inr (g x)) \<Longrightarrow> map_thrown f xs = Inr (map g xs)"
  by (induction xs) simp_all

lemma HomePage_output:
  assumes "modules h ''./dictionaries/fr.json'' = Inr dict"
    and "own_property dict ''home'' = Some home" and "home \<noteq> JNull"
  shows "fst (HomePage ''fr'' h) =
           Inr (HomePage_jsx ''fr''
                  [own_property home ''role'', own_property home ''goal'',
                   own_property home ''stackBackend'', own_property home ''stackAi'',
                   own_property home ''stackInfra'', own_property home ''stackData'',
                   own_property home ''chatCta''])"
  using assms(1)
  by (simp add: HomePage_def isLocale_fr getDictionary_fr path_section [OF assms(2,3)]
      del: path.simps)

lemma ApproachArchitecturePage_output:
  assumes "modules h ''./dictionaries/fr.json'' = Inr dict"
    and "own_property dict ''approach'' = Some approach"
    and "own_property approach ''steps'' = Some (JArray steps)"
    and "JNull \<notin> set steps"
  shows "fst (ApproachArchitecturePage ''fr'' h) =
           Inr (ApproachArchitecturePage_jsx
                  [own_property approach ''title'', own_property approach ''intro'']
                  (map (\<lambda>step. [own_property step ''title'', own_property step ''title'',
                                 own_property step ''detail'']) steps))"
proof -
  have nn: "approach \<noteq> JNull"
    using assms(3) by (auto simp: own_property_def)
  have items: "map_thrown
          (\<lambda>step. reads [(Some step, [''title'']), (Some step, [''title'']), (Some step, [''detail''])])
          steps =
        Inr (map (\<lambda>step. [own_property step ''title'', own_property step ''title'',
                           own_property step ''detail'']) steps)"
  proof (rule map_thrown_values)
    fix x assume "x \<in> set steps"
    then have "x \<noteq> JNull" using assms(4) by auto
    then show "reads [(Some x, [''title'']), (Some x, [''title'']), (Some x, [''detail''])] =
        Inr [own_property x ''title'', own_property x ''title'', own_property x ''detail'']"
      by (simp add: get_property_value)
  qed
  have heading: "reads [(Some dict, [''approach'', ''title'']), (Some dict, [''approach'', ''intro''])] =
        Inr [own_property approach ''title'', own_property approach ''intro'']"
    by (simp add: path_section [OF assms(2) nn] del: path.simps)
  have steps: "path (Some dict) [''approach'', ''steps''] = Inr (Some (JArray steps))"
    by (simp add: path_section [OF assms(2) nn] assms(3) del: path.simps)
  show ?thesis
    by (simp add: ApproachArchitecturePage_def isLocale_fr getDictionary_fr assms(1)
        heading steps items Array_map_def del: path.simps reads.simps)
qed

lemma ProjectsPage_output:
  assumes "modules h ''./dictionaries/fr.json'' = Inr dict"
    and "modules h ''./fr.json'' = Inr (JArray ps)"
    and "own_property dict ''projects'' = Some sec"
    and "own_property sec ''labels'' = Some labels" and "labels \<noteq> JNull"
    and "JNull \<notin> set ps"
  shows "fst (ProjectsPage ''fr'' h) =
           Inr (ProjectsPage_jsx
                  [own_property sec ''title'', own_property sec ''intro'']
                  (map (\<lambda>project.
                          [own_property project ''name'', own_property project ''name'',
                           own_property labels ''context'', own_property project ''context'',
                           own_property labels ''architecture'', own_property project ''architecture'',
                           own_property labels ''choices'', own_property project ''choices'',
                           own_property labels ''constraints'', own_property project ''constraints'',
                           own_property labels ''results'', own_property project ''results''])
                     ps))"
proof -
  have nn: "sec \<noteq> JNull"
    using assms(4) by (auto simp: own_property_def)
  have dn: "dict \<noteq> JNull"
    using assms(3) by (auto simp: own_property_def)
  have label: "path (Some dict) [''projects'', ''labels'', k] = Inr (own_property labels k)" for k
    using assms(3,4,5) dn nn by (simp add: get_property_value)
  have cards: "map_thrown
          (\<lambda>project. reads
             [(Some project, [''name'']),
              (Some project, [''name'']),
              (Some dict, [''projects'', ''labels'', ''context'']),
              (Some project, [''context'']),
              (Some dict, [''projects'', ''labels'', ''architecture'']),
              (Some project, [''architecture'']),
              (Some dict, [''projects'', ''labels'', ''choices'']),
              (Some project, [''choices'']),
              (Some dict, [''projects'', ''labels'', ''constraints'']),
              (Some project, [''constraints'']),
              (Some dict, [''projects'', ''labels'', ''results'']),
              (Some project, [''results''])])
          ps =
        Inr (map (\<lambda>project.
                          [own_property project ''name'', own_property project ''name'',
                           own_property labels ''context'', own_property project ''context'',
                           own_property labels ''architecture'', own_property project ''architecture'',
                           own_property labels ''choices'', own_property project ''choices'',
                           own_property labels ''constraints'', own_property project ''constraints'',
                           own_property labels ''results'', own_property project ''results''])
                     ps)"
  proof (rule map_thrown_values)
    fix x assume "x \<in> set ps"
    then have xn: "x \<noteq> JNull" using assms(6) by auto
    show "reads
             [(Some x, [''name'']),
              (Some x, [''name'']),
              (Some dict, [''projects'', ''labels'', ''context'']),
              (Some x, [''context'']),
              (Some dict, [''projects'', ''labels'', ''architecture'']),
              (Some x, [''architecture'']),
              (Some dict, [''projects'', ''labels'', ''choices'']),
              (Some x, [''choices'']),
              (Some dict, [''projects'', ''labels'', ''constraints'']),
              (Some x, [''constraints'']),
              (Some dict, [''projects'', ''labels'', ''results'']),
              (Some x, [''results''])] =
          Inr [own_property x ''name'', own_property x ''name'',
                           own_property labels ''context'', own_property x ''context'',
                           own_property labels ''architecture'', own_property x ''architecture'',
                           own_property labels ''choices'', own_property x ''choices'',
                           own_property labels ''constraints'', own_property x ''constraints'',
                           own_property labels ''results'', own_property x ''results'']"
      by (simp add: label path_property [OF xn] del: path.simps)
  qed
  have proj: "getProjects ''fr'' (h\<lparr>imported := imported h @ [''./dictionaries/fr.json'']\<rparr>) =
             (Inr (JArray ps),
              h\<lparr>imported := imported h @ [''./dictionaries/fr.json''] @ [''./fr.json'']\<rparr>)"
    using assms(2) by (simp add: getProjects_fr)
  have heading: "reads [(Some dict, [''projects'', ''title'']), (Some dict, [''projects'', ''intro''])] =
        Inr [own_property sec ''title'', own_property sec ''intro'']"
    by (simp add: path_section [OF assms(3) nn] del: path.simps)
  show ?thesis
    by (simp add: ProjectsPage_def isLocale_fr getDictionary_fr assms(1) proj
        heading cards Array_map_def del: path.simps reads.simps)
qed

text \<open>
  C4, as stated, fails for the layout of the localized routes: with a locale parameter
  that is not supported, \<^verbatim>\<open>LocaleLayout\<close> calls \<^verbatim>\<open>notFound()\<close> and produces no
  output, even when every bundle loads.
\<close>

theorem layout_rejects_unsupported_locale:
  "\<not> isLocale ''xx'' \<and>
   fst (LocaleLayout ''xx'' \<lparr>modules = bundled (JObject []), imported = []\<rparr>) = Inl NotFoundError"
  by (simp add: LocaleLayout_def isLocale_def SUPPORTED_LOCALES_def)

text \<open>
  C4, amended. When the route's locale parameter is not a supported locale tag, the layout
  of the localized routes does not fall back: it rejects the render with
  \<^verbatim>\<open>notFound()\<close>. Each page component (home, projects, chat, contact, approach) falls
  back to the default locale \<^verbatim>\<open>fr\<close>: it does exactly what it does for the parameter
  \<^verbatim>\<open>fr\<close>, so the locale itself never rejects the render there. The chat and contact
  pages then produce their output whenever the French dictionary loads; the home, approach
  and projects pages produce theirs, built from the French dictionary (and the French
  project list), whenever the bundles load and hold what the page reads: the section
  \<^verbatim>\<open>home\<close>; the section \<^verbatim>\<open>approach\<close> with an array \<^verbatim>\<open>steps\<close> without
  \<^verbatim>\<open>null\<close>; the section \<^verbatim>\<open>projects\<close> with its \<^verbatim>\<open>labels\<close> and a project list
  that is an array without \<^verbatim>\<open>null\<close>.
\<close>

theorem pages_fall_back_to_fr:
  assumes "\<not> isLocale localeParam"
  shows "LocaleLayout localeParam h = (Inl NotFoundError, h) \<and>
         HomePage localeParam h = HomePage ''fr'' h \<and>
         ProjectsPage localeParam h = ProjectsPage ''fr'' h \<and>
         ChatPage localeParam h = ChatPage ''fr'' h \<and>
         ContactPage localeParam h = ContactPage ''fr'' h \<and>
         ApproachArchitecturePage localeParam h = ApproachArchitecturePage ''fr'' h \<and>
         (\<forall>dict.
            modules h ''./dictionaries/fr.json'' = Inr dict \<longrightarrow>
            fst (ChatPage localeParam h) = Inr (ChatPage_jsx ''fr'' dict) \<and>
            fst (ContactPage localeParam h) = Inr (ContactPage_jsx ''fr'' dict)) \<and>
         (\<forall>dict home.
            modules h ''./dictionaries/fr.json'' = Inr dict \<and>
            own_property dict ''home'' = Some home \<and> home \<noteq> JNull \<longrightarrow>
            fst (HomePage localeParam h) =
              Inr (HomePage_jsx ''fr''
                     [own_property home ''role'', own_property home ''goal'',
                      own_property home ''stackBackend'', own_property home ''stackAi'',
                      own_property home ''stackInfra'', own_property home ''stackData'',
                      own_property home ''chatCta''])) \<and>
         (\<forall>dict approach steps.
            modules h ''./dictionaries/fr.json'' = Inr dict \<and>
            own_property dict ''approach'' = Some approach \<and>
            own_property approach ''steps'' = Some (JArray steps) \<and> JNull \<notin> set steps \<longrightarrow>
            fst (ApproachArchitecturePage localeParam h) =
              Inr (ApproachArchitecturePage_jsx
                     [own_property approach ''title'', own_property approach ''intro'']
                     (map (\<lambda>step. [own_property step ''title'', own_property step ''title'',
                                    own_property step ''detail'']) steps))) \<and>
         (\<forall>dict sec labels ps.
            modules h ''./dictionaries/fr.json'' = Inr dict \<and>
            modules h ''./fr.json'' = Inr (JArray ps) \<and>
            own_property dict ''projects'' = Some sec \<and>
            own_property sec ''labels'' = Some labels \<and> labels \<noteq> JNull \<and>
            JNull \<notin> set ps \<longrightarrow>
            fst (ProjectsPage localeParam h) =
              Inr (ProjectsPage_jsx
                     [own_property sec ''title'', own_property sec ''intro'']
                     (map (\<lambda>project.
                             [own_property project ''name'', own_property project ''name'',
                              own_property labels ''context'', own_property project ''context'',
                              own_property labels ''architecture'', own_property project ''architecture'',
                              own_property labels ''choices'', own_property project ''choices'',
                              own_property labels ''constraints'', own_property project ''constraints'',
                              own_property labels ''results'', own_property project ''results''])
                        ps)))"
proof -
  have layout: "LocaleLayout localeParam h = (Inl NotFoundError, h)"
    using assms by (simp add: LocaleLayout_def)
  have home: "HomePage localeParam h = HomePage ''fr'' h"
    using assms by (simp add: HomePage_def isLocale_fr)
  have projects: "ProjectsPage localeParam h = ProjectsPage ''fr'' h"
    using assms by (simp add: ProjectsPage_def isLocale_fr)
  have chat: "ChatPage localeParam h = ChatPage ''fr'' h"
    using assms by (simp add: ChatPage_def isLocale_fr)
  have contact: "ContactPage localeParam h = ContactPage ''fr'' h"
    using assms by (simp add: ContactPage_def isLocale_fr)
  have approach: "ApproachArchitecturePage localeParam h = ApproachArchitecturePage ''fr'' h"
    using assms by (simp add: ApproachArchitecturePage_def isLocale_fr)
  have scenes: "fst (ChatPage ''fr'' h) = Inr (ChatPage_jsx ''fr'' dict) \<and>
                fst (ContactPage ''fr'' h) = Inr (ContactPage_jsx ''fr'' dict)"
    if "modules h ''./dictionaries/fr.json'' = Inr dict" for dict
    using that by (simp add: ChatPage_def ContactPage_def isLocale_fr getDictionary_fr)
  show ?thesis
    unfolding layout home projects chat contact approach
    using scenes HomePage_output ApproachArchitecturePage_output ProjectsPage_output
    by blast
qed

theorem pages_fall_back_to_fr_witness:
  "\<not> isLocale ''xx'' \<and>
   LocaleLayout ''xx'' \<lparr>modules = sample_modules, imported = []\<rparr> =
     (Inl NotFoundError, \<lparr>modules = sample_modules, imported = []\<rparr>) \<and>
   fst (ChatPage ''xx'' \<lparr>modules = sample_modules, imported = []\<rparr>) =
     Inr (ChatPage_jsx ''fr'' sample_dictionary) \<and>
   fst (HomePage ''xx'' \<lparr>modules = sample_modules, imported = []\<rparr>) =
     Inr (HomePage_jsx ''fr''
            [Some (JString ''Architecte IA''), Some (JString ''Concevoir''),
             Some (JString ''Python''), Some (JString ''RAG''), Some (JString ''Docker''),
             Some (JString ''Postgres''), Some (JString ''Ouvrir'')]) \<and>
   fst (ApproachArchitecturePage ''xx'' \<lparr>modules = sample_modules, imported = []\<rparr>) =
     Inr (ApproachArchitecturePage_jsx
            [Some (JString ''Approche''), Some (JString ''En bref'')]
            [[Some (JString ''Cadrer''), Some (JString ''Cadrer''), Some (JString ''Comprendre'')]]) \<and>
   fst (ProjectsPage ''xx'' \<lparr>modules = sample_modules, imported = []\<rparr>) =
     Inr (ProjectsPage_jsx
            [Some (JString ''Projets''), Some (JString ''Etudes de cas'')]
            [[Some (JString ''Portfolio''), Some (JString ''Portfolio''),
              Some (JString ''Contexte''), Some (JString ''Site''),
              Some (JString ''Architecture''), Some (JString ''Next''),
              Some (JString ''Choix''), Some (JString ''SSR''),
              Some (JString ''Contraintes''), Some (JString ''Temps''),
              Some (JString ''Resultats''), Some (JString ''En ligne'')]])"
proof -
  have xx: "\<not> isLocale ''xx''"
    by (simp add: isLocale_def SUPPORTED_LOCALES_def)
  show ?thesis
    using xx pages_fall_back_to_fr [OF xx, of "\<lparr>modules = sample_modules, imported = []\<rparr>"]
    by (auto simp: sample_modules_def sample_dictionary_def sample_projects_def own_property_def)
qed

section \<open>The chat panel\<close>

lemma trim_whitespace:
  assumes "\<forall>c \<in> set s. isWhiteSpace c"
  shows "trim s = []"
proof -
  have blank: "dropWhile isWhiteSpace s = []"
    using assms by (induction s) auto
  show ?thesis by (simp add: trim_def blank)
qed

text \<open>
  An input that is not blank, in the idle panel, does send: the user's message is appended,
  the input is cleared, the processing flag is set, the token count grows and one call of
  the chat route is issued.
\<close>

lemma handleSend_sends:
  "handleSend ''fr'' \<lparr>Date_now = 12, ts_now = js ''10:00:00''\<rparr> (idle_scene (js '' hi there '')) =
     ((idle_scene [])
        \<lparr>messages :=
           [\<lparr>id' = js ''u-12'', role = user, content = js ''hi there'', ts = js ''10:00:00''\<rparr>],
         isProcessing := True,
         metrics := \<lparr>latency = 42, tokenGen = 38, memory = 42 / 10, tokensUsed = 6\<rparr>\<rparr>,
      [Fetch ''/api/chat''
         \<lparr>method_ = Some ''POST'',
          headers = [(''Content-Type'', ''application/json'')],
          body = Some (JSON_stringify
            (JObject [(''message'', JString (js ''hi there'')),
                      (''session_id'', JString (js ''0000'')),
                      (''locale'', JString (js ''fr''))])),
          cache = None\<rparr>])"
  by code_simp

text \<open>
  C9. When the input is empty or holds only white space, \<^verbatim>\<open>handleSend\<close> issues no
  network call and leaves the whole state as it was: the message list, the processing flag
  and the metrics among the rest.
\<close>

theorem handleSend_blank_input:
  assumes "\<forall>c \<in> set (input st). isWhiteSpace c"
  shows "handleSend locale clock st = (st, [])"
  using trim_whitespace [OF assms] by (simp add: handleSend_def)

theorem handleSend_blank_input_witness:
  "handleSend ''fr'' \<lparr>Date_now = 1730000000000, ts_now = js ''10:00:00''\<rparr>
     (idle_scene [0x0020, 0x0009, 0x3000, 0x00A0, 0x2028, 0xFEFF]) =
   (idle_scene [0x0020, 0x0009, 0x3000, 0x00A0, 0x2028, 0xFEFF], [])"
  using handleSend_blank_input
    [of "idle_scene [0x0020, 0x0009, 0x3000, 0x00A0, 0x2028, 0xFEFF]" "''fr''"
        "\<lparr>Date_now = 1730000000000, ts_now = js ''10:00:00''\<rparr>"]
  by (simp add: idle_scene_def isWhiteSpace_def)

end
